theory Spec2Isabelle
  imports Main
begin

section \<open>Distributed-training helpers of \<^verbatim>\<open>awsdet/utils/runner/dist_utils.py\<close>\<close>

text \<open>
  The module is glue between a training loop and two libraries: the distributed runtime
  (imported as \<^verbatim>\<open>hr\<close>) and the accelerator configuration interface of the tensor
  library (imported as \<^verbatim>\<open>tf\<close>). Neither library is part of the module, so each call
  into them is modelled as a step that appends one event to a trace and hands back the
  value the environment supplies. The calls are taken to return; what the libraries do
  inside is not modelled.
\<close>

subsection \<open>Values\<close>

text \<open>An opaque Python object, known only by its identity.\<close>

datatype pyref = Ref nat

text \<open>A physical device as the enumeration reports it: its name and its device type.\<close>

datatype device = PhysicalDevice string string

datatype tf_dtype = Float16 | Float32 | Float64 | Int32 | Int64

text \<open>
  \<^verbatim>\<open>tf.constant(v, dtype=d)\<close> with a Python integer literal \<open>v\<close>: the tensor is kept
  symbolic, as the literal and the requested element type.
\<close>

datatype tensor = Constant int tf_dtype

text \<open>
  The exceptions that occur: the one list indexing raises, and whatever a wrapped
  function raises by itself.
\<close>

datatype py_error = IndexError | Exception string

text \<open>What a Python call evaluates to: \<^verbatim>\<open>None\<close> or some other object.\<close>

datatype 'r pyobj = PyNone | PyVal 'r

subsection \<open>The environment\<close>

text \<open>
  What the distributed runtime answers in the current process: the four process-identity
  numbers (Python integers), the object its gradient-tape wrapper builds around a tape,
  and the tensor its out-of-band all-reduce hands back.
\<close>

record runtime =
  rt_rank :: int
  rt_local_rank :: int
  rt_size :: int
  rt_local_size :: int
  rt_tape :: "pyref \<Rightarrow> pyref"
  rt_allreduce :: "tensor \<Rightarrow> pyref"

text \<open>
  One event per call that leaves the module. \<open>BroadcastVariables\<close> is the runtime's
  variable broadcast (variables, root rank); the module names it only in two lines that are
  commented out.
\<close>

datatype event =
    ListPhysicalDevices string
  | SetMemoryGrowth device bool
  | SetVisibleDevices device string
  | Rank
  | LocalRank
  | Size
  | LocalSize
  | DistributedGradientTape pyref
  | BroadcastVariables "pyref list" int
  | OobAllreduce tensor
  | Print string

text \<open>
  The state a call runs in: the runtime's answers, the device enumeration (by device
  type), the trace of calls made so far, and the rest of the program's objects (\<open>heap\<close>),
  which the module never looks into and which therefore stays abstract.
\<close>

record 'h world =
  rt :: runtime
  devices :: "string \<Rightarrow> device list"
  trace :: "event list"
  heap :: 'h

definition log :: "event \<Rightarrow> 'h world \<Rightarrow> 'h world" where
  "log e w = w\<lparr>trace := trace w @ [e]\<rparr>"

text \<open>The collective-communication primitives among the events.\<close>

fun is_collective :: "event \<Rightarrow> bool" where
  "is_collective (OobAllreduce t) = True"
| "is_collective (BroadcastVariables vs root) = True"
| "is_collective e = False"

fun is_device_config :: "event \<Rightarrow> bool" where
  "is_device_config (SetMemoryGrowth d b) = True"
| "is_device_config (SetVisibleDevices d k) = True"
| "is_device_config e = False"

subsection \<open>Calls into the libraries\<close>

definition tf_list_physical_devices :: "string \<Rightarrow> 'h world \<Rightarrow> device list \<times> 'h world" where
  "tf_list_physical_devices kind w = (devices w kind, log (ListPhysicalDevices kind) w)"

definition tf_set_memory_growth :: "device \<Rightarrow> bool \<Rightarrow> 'h world \<Rightarrow> 'h world" where
  "tf_set_memory_growth d enable w = log (SetMemoryGrowth d enable) w"

definition tf_set_visible_devices ::
  "device \<Rightarrow> string \<Rightarrow> 'h world \<Rightarrow> (py_error + unit) \<times> 'h world" where
  "tf_set_visible_devices d kind w = (Inr (), log (SetVisibleDevices d kind) w)"

definition hr_rank :: "'h world \<Rightarrow> int \<times> 'h world" where
  "hr_rank w = (rt_rank (rt w), log Rank w)"

definition hr_local_rank :: "'h world \<Rightarrow> int \<times> 'h world" where
  "hr_local_rank w = (rt_local_rank (rt w), log LocalRank w)"

definition hr_size :: "'h world \<Rightarrow> int \<times> 'h world" where
  "hr_size w = (rt_size (rt w), log Size w)"

definition hr_local_size :: "'h world \<Rightarrow> int \<times> 'h world" where
  "hr_local_size w = (rt_local_size (rt w), log LocalSize w)"

definition hr_DistributedGradientTape :: "pyref \<Rightarrow> 'h world \<Rightarrow> pyref \<times> 'h world" where
  "hr_DistributedGradientTape tape w = (rt_tape (rt w) tape, log (DistributedGradientTape tape) w)"

definition hr_oob_allreduce :: "tensor \<Rightarrow> 'h world \<Rightarrow> pyref \<times> 'h world" where
  "hr_oob_allreduce t w = (rt_allreduce (rt w) t, log (OobAllreduce t) w)"

definition print :: "string \<Rightarrow> 'h world \<Rightarrow> 'h world" where
  "print s w = log (Print s) w"

subsection \<open>Python built-ins the module relies on\<close>

text \<open>
  List subscription with an integer: a negative index counts from the end, and an index
  that is still out of range after that adjustment raises \<^verbatim>\<open>IndexError\<close>.
\<close>

definition py_getitem :: "'a list \<Rightarrow> int \<Rightarrow> py_error + 'a" where
  "py_getitem xs i =
     (let n = int (length xs);
          j = (if i < 0 then i + n else i)
      in if j < 0 \<or> n \<le> j then Inl IndexError else Inr (xs ! nat j))"

text \<open>Decimal rendering of an integer, as \<^verbatim>\<open>str\<close> and \<^verbatim>\<open>'{}'.format\<close> give it.\<close>

definition digit_char :: "nat \<Rightarrow> char" where
  "digit_char d = ''0123456789'' ! d"

function str_nat :: "nat \<Rightarrow> string" where
  "str_nat n = (if n < 10 then [digit_char n] else str_nat (n div 10) @ [digit_char (n mod 10)])"
  by pat_completeness auto
termination
  by (relation "measure (\<lambda>n. n)") auto

declare str_nat.simps [simp del]

definition str_int :: "int \<Rightarrow> string" where
  "str_int i = (if i < 0 then CHR ''-'' # str_nat (nat (- i)) else str_nat (nat i))"

subsection \<open>The module\<close>

text \<open>
  \<^verbatim>\<open>init_dist\<close>: enumerate the GPUs, switch memory growth on for each of them in turn
  and, when the list is not empty, make the one at index \<^verbatim>\<open>hr.local_rank()\<close> the only
  visible one. The subscription is evaluated after the runtime has been asked and before
  the visibility call.
\<close>

fun memory_growth_loop :: "device list \<Rightarrow> 'h world \<Rightarrow> 'h world" where
  "memory_growth_loop [] w = w"
| "memory_growth_loop (gpu # rest) w = memory_growth_loop rest (tf_set_memory_growth gpu True w)"

definition init_dist :: "'h world \<Rightarrow> (py_error + unit) \<times> 'h world" where
  "init_dist w =
     (case tf_list_physical_devices ''GPU'' w of (gpus, w1) \<Rightarrow>
        let w2 = memory_growth_loop gpus w1 in
        if gpus \<noteq> [] then
          (case hr_local_rank w2 of (lr, w3) \<Rightarrow>
             (case py_getitem gpus lr of
                Inl e \<Rightarrow> (Inl e, w3)
              | Inr gpu \<Rightarrow> tf_set_visible_devices gpu ''GPU'' w3))
        else (Inr (), w2))"

text \<open>\<^verbatim>\<open>get_dist_info\<close>: four queries, left to right, returned as a tuple.\<close>

definition get_dist_info :: "'h world \<Rightarrow> (int \<times> int \<times> int \<times> int) \<times> 'h world" where
  "get_dist_info w =
     (case hr_rank w of (r, w1) \<Rightarrow>
      case hr_local_rank w1 of (lr, w2) \<Rightarrow>
      case hr_size w2 of (s, w3) \<Rightarrow>
      case hr_local_size w3 of (ls, w4) \<Rightarrow> ((r, lr, s, ls), w4))"

text \<open>
  A Python callable taking positional and keyword arguments: it runs in the world, may
  change all of it, and either raises or returns an object.
\<close>

type_synonym ('a, 'r, 'h) pyfunc =
  "'a list \<Rightarrow> (string \<times> 'a) list \<Rightarrow> 'h world \<Rightarrow> (py_error + 'r pyobj) \<times> 'h world"

text \<open>
  \<^verbatim>\<open>master_only\<close>: the decorator returns the inner \<^verbatim>\<open>wrapper\<close>, which asks for the
  distributed info, keeps the first component, and calls the function only when it is 0.
  Falling off the end of the body returns \<^verbatim>\<open>None\<close>. (\<^verbatim>\<open>functools.wraps\<close> copies
  the function's name and documentation onto the wrapper and does nothing when called.)
\<close>

definition wrapper :: "('a, 'r, 'h) pyfunc \<Rightarrow> ('a, 'r, 'h) pyfunc" where
  "wrapper func args kwargs w =
     (case get_dist_info w of ((rank, _, _, _), w1) \<Rightarrow>
        if rank = 0 then func args kwargs w1 else (Inr PyNone, w1))"

definition master_only :: "('a, 'r, 'h) pyfunc \<Rightarrow> ('a, 'r, 'h) pyfunc" where
  "master_only func = wrapper func"

text \<open>
  The runner, as far as the module mentions it: its rank, and the variables of its model
  and of its optimizer (references into the heap).
\<close>

record runner =
  runner_rank :: int
  model_variables :: "pyref list"
  optimizer_variables :: "pyref list"

text \<open>
  \<^verbatim>\<open>broadcast_weights\<close>: two \<^verbatim>\<open>print\<close> calls. The two \<^verbatim>\<open>hr.broadcast_variables\<close>
  lines between them are comments in the source and so are no part of the function.
\<close>

definition broadcast_weights :: "runner \<Rightarrow> 'h world \<Rightarrow> (py_error + unit) \<times> 'h world" where
  "broadcast_weights r w =
     (let w1 = print (''Rank '' @ str_int (runner_rank r) @ '' broadcasting'') w;
          w2 = print ''Variable broadcast done.'' w1
      in (Inr (), w2))"

definition get_distributed_tape :: "pyref \<Rightarrow> 'h world \<Rightarrow> pyref \<times> 'h world" where
  "get_distributed_tape tape w = hr_DistributedGradientTape tape w"

definition get_barrier :: "'h world \<Rightarrow> pyref \<times> 'h world" where
  "get_barrier w = hr_oob_allreduce (Constant 0 Float32) w"

subsection \<open>Observation and examples\<close>

text \<open>The events a run added: the trace of the final world past the initial one's.\<close>

definition emitted :: "'h world \<Rightarrow> 'h world \<Rightarrow> event list" where
  "emitted w w' = drop (length (trace w)) (trace w')"

text \<open>
  Counting invocations. The wrapper is polymorphic in the heap, so a counter can be put
  beside the heap where the wrapped function cannot reach it: \<open>counting func\<close> runs
  \<open>func\<close> on the world without the counter and adds one to the counter each time it is
  applied. Nothing else changes the counter.
\<close>

definition with_counter :: "nat \<Rightarrow> 'h world \<Rightarrow> (nat \<times> 'h) world" where
  "with_counter n w = \<lparr>rt = rt w, devices = devices w, trace = trace w, heap = (n, heap w)\<rparr>"

definition drop_counter :: "(nat \<times> 'h) world \<Rightarrow> 'h world" where
  "drop_counter w = \<lparr>rt = rt w, devices = devices w, trace = trace w, heap = snd (heap w)\<rparr>"

definition invocations :: "(nat \<times> 'h) world \<Rightarrow> nat" where
  "invocations w = fst (heap w)"

definition counting :: "('a, 'r, 'h) pyfunc \<Rightarrow> ('a, 'r, nat \<times> 'h) pyfunc" where
  "counting func args kwargs w =
     (case func args kwargs (drop_counter w) of
        (res, w') \<Rightarrow> (res, with_counter (Suc (invocations w)) w'))"

text \<open>
  Concrete inputs: a process with the given rank and local rank in a job of eight, the
  given GPUs, an empty trace, and a runtime whose tape wrapper and all-reduce are fixed
  functions; a function that returns the sum of its positional arguments and one that
  raises, both printing first; a runner of rank 12; two devices.
\<close>

fun example_tape :: "pyref \<Rightarrow> pyref" where
  "example_tape (Ref k) = Ref (Suc k)"

fun example_allreduce :: "tensor \<Rightarrow> pyref" where
  "example_allreduce (Constant v d) = Ref 0"

definition example_world :: "int \<Rightarrow> int \<Rightarrow> device list \<Rightarrow> 'h \<Rightarrow> 'h world" where
  "example_world r lr gpus h =
     \<lparr>rt = \<lparr>rt_rank = r, rt_local_rank = lr, rt_size = 8, rt_local_size = 8,
             rt_tape = example_tape, rt_allreduce = example_allreduce\<rparr>,
       devices = (\<lambda>kind. if kind = ''GPU'' then gpus else []),
       trace = [], heap = h\<rparr>"

definition example_func :: "(int, int, 'h) pyfunc" where
  "example_func args kwargs w = (Inr (PyVal (sum_list args)), print ''called'' w)"

definition raising_func :: "(int, int, 'h) pyfunc" where
  "raising_func args kwargs w = (Inl (Exception ''boom''), print ''called'' w)"

definition example_runner :: runner where
  "example_runner =
     \<lparr>runner_rank = 12, model_variables = [Ref 1, Ref 2], optimizer_variables = [Ref 3]\<rparr>"

definition gpu0 :: device where
  "gpu0 = PhysicalDevice ''/physical_device:GPU:0'' ''GPU''"

definition gpu1 :: device where
  "gpu1 = PhysicalDevice ''/physical_device:GPU:1'' ''GPU''"

section \<open>Properties\<close>

subsection \<open>What each function does to the world\<close>

lemma get_dist_info_unfold:
  "get_dist_info w =
     ((rt_rank (rt w), rt_local_rank (rt w), rt_size (rt w), rt_local_size (rt w)),
      w\<lparr>trace := trace w @ [Rank, LocalRank, Size, LocalSize]\<rparr>)"
  by (simp add: get_dist_info_def hr_rank_def hr_local_rank_def hr_size_def hr_local_size_def
      log_def)

lemma wrapper_unfold:
  "wrapper func args kwargs w =
     (if rt_rank (rt w) = 0
      then func args kwargs (w\<lparr>trace := trace w @ [Rank, LocalRank, Size, LocalSize]\<rparr>)
      else (Inr PyNone, w\<lparr>trace := trace w @ [Rank, LocalRank, Size, LocalSize]\<rparr>))"
  by (simp add: wrapper_def get_dist_info_unfold)

lemma memory_growth_loop_trace:
  "memory_growth_loop gpus w = w\<lparr>trace := trace w @ map (\<lambda>g. SetMemoryGrowth g True) gpus\<rparr>"
  by (induction gpus arbitrary: w) (simp_all add: tf_set_memory_growth_def log_def)

lemma init_dist_unfold:
  "init_dist w =
    (let gpus = devices w ''GPU'';
         w2 = w\<lparr>trace := trace w @
                ListPhysicalDevices ''GPU'' # map (\<lambda>g. SetMemoryGrowth g True) gpus\<rparr>
     in if gpus = [] then (Inr (), w2)
        else (case py_getitem gpus (rt_local_rank (rt w)) of
                Inl e \<Rightarrow> (Inl e, w2\<lparr>trace := trace w2 @ [LocalRank]\<rparr>)
              | Inr gpu \<Rightarrow>
                  (Inr (), w2\<lparr>trace := trace w2 @ [LocalRank, SetVisibleDevices gpu ''GPU'']\<rparr>)))"
  by (simp add: init_dist_def tf_list_physical_devices_def memory_growth_loop_trace
      hr_local_rank_def tf_set_visible_devices_def log_def Let_def split: sum.splits)

lemma py_getitem_error:
  "xs \<noteq> [] \<Longrightarrow>
     (py_getitem xs i = Inl IndexError) = (i < - int (length xs) \<or> int (length xs) \<le> i)"
  by (auto simp add: py_getitem_def Let_def)

lemma py_getitem_in_range:
  "- int (length xs) \<le> i \<Longrightarrow> i < int (length xs) \<Longrightarrow>
     py_getitem xs i = Inr (xs ! nat (if i < 0 then i + int (length xs) else i))"
  by (auto simp add: py_getitem_def Let_def)

lemma drop_with_counter [simp]: "drop_counter (with_counter n w) = w"
  by (cases w) (simp add: drop_counter_def with_counter_def)

lemma invocations_with_counter [simp]: "invocations (with_counter n w) = n"
  by (simp add: invocations_def with_counter_def)

lemma with_counter_sel [simp]:
  "rt (with_counter n w) = rt w" "trace (with_counter n w) = trace w"
  by (simp_all add: with_counter_def)

lemma with_counter_trace_update [simp]:
  "(with_counter n w)\<lparr>trace := t\<rparr> = with_counter n (w\<lparr>trace := t\<rparr>)"
  by (simp add: with_counter_def)

subsection \<open>\<^verbatim>\<open>master_only\<close>\<close>

text \<open>
  Claim C1. For every function and every argument list, with or without arguments, one
  call of the wrapper that \<open>master_only\<close> returns invokes the function exactly once when
  the runtime reports global rank 0 and not at all otherwise: a counter that every
  application of the function advances by one goes from \<open>n\<close> to \<open>n + 1\<close> in the first
  case and stays \<open>n\<close> in the second. The counter does not disturb the run: result and
  final world are those of the wrapper around the plain function.
\<close>

theorem master_only_invocation_count:
  "invocations (snd (master_only (counting func) args kwargs (with_counter n w))) =
     (if rt_rank (rt w) = 0 then Suc n else n)
   \<and> fst (master_only (counting func) args kwargs (with_counter n w)) =
     fst (master_only func args kwargs w)
   \<and> drop_counter (snd (master_only (counting func) args kwargs (with_counter n w))) =
     snd (master_only func args kwargs w)"
  by (simp add: master_only_def wrapper_unfold counting_def split: prod.splits)

theorem master_only_invocation_count_witness:
  "invocations (snd (master_only (counting example_func) [1, 2, 3] []
      (with_counter 0 (example_world 0 0 [] ())))) = 1
   \<and> invocations (snd (master_only (counting example_func) [] []
      (with_counter 0 (example_world 0 0 [] ())))) = 1
   \<and> invocations (snd (master_only (counting example_func) [1, 2, 3] []
      (with_counter 0 (example_world 3 0 [] ())))) = 0
   \<and> invocations (snd (master_only (counting example_func) [] []
      (with_counter 0 (example_world 3 0 [] ())))) = 0"
  using master_only_invocation_count [of example_func "[1, 2, 3]" "[]" 0 "example_world 0 0 [] ()"]
    master_only_invocation_count [of example_func "[]" "[]" 0 "example_world 0 0 [] ()"]
    master_only_invocation_count [of example_func "[1, 2, 3]" "[]" 0 "example_world 3 0 [] ()"]
    master_only_invocation_count [of example_func "[]" "[]" 0 "example_world 3 0 [] ()"]
  by (simp add: example_world_def)

text \<open>
  Claim C5. On a process whose global rank is not 0 the wrapper returns \<^verbatim>\<open>None\<close> and
  raises nothing, whatever the wrapped function and the arguments are: the outcome does
  not mention the function, and the only trace left is the four runtime queries.
\<close>

theorem master_only_skips_off_master:
  assumes "rt_rank (rt w) \<noteq> 0"
  shows "master_only func args kwargs w =
     (Inr PyNone, w\<lparr>trace := trace w @ [Rank, LocalRank, Size, LocalSize]\<rparr>)"
  using assms by (simp add: master_only_def wrapper_unfold)

theorem master_only_skips_off_master_witness:
  "rt_rank (rt (example_world 3 0 [] ())) \<noteq> 0
   \<and> fst (raising_func [1, 2] [] (example_world 3 0 [] ())) = Inl (Exception ''boom'')
   \<and> master_only raising_func [1, 2] [] (example_world 3 0 [] ()) =
       (Inr PyNone, (example_world 3 0 [] ())\<lparr>trace := [Rank, LocalRank, Size, LocalSize]\<rparr>)"
proof -
  have h: "rt_rank (rt (example_world 3 0 [] ())) \<noteq> 0"
    by (simp add: example_world_def)
  have t: "trace (example_world 3 0 [] ()) = []"
    by (simp add: example_world_def)
  from master_only_skips_off_master [OF h, of raising_func "[1, 2]" "[]"] show ?thesis
    using h by (simp add: t raising_func_def)
qed

text \<open>
  Claim C10. On the process whose global rank is 0 the wrapper's outcome is the wrapped
  function's outcome for the given arguments, run after the four runtime queries: the
  value it returns (or the exception it raises) is handed on as it is.
\<close>

theorem master_only_propagates_result:
  assumes "rt_rank (rt w) = 0"
  shows "master_only func args kwargs w =
     func args kwargs (w\<lparr>trace := trace w @ [Rank, LocalRank, Size, LocalSize]\<rparr>)"
  using assms by (simp add: master_only_def wrapper_unfold)

theorem master_only_propagates_result_witness:
  "rt_rank (rt (example_world 0 0 [] ())) = 0
   \<and> fst (master_only example_func [1, 2, 3] [] (example_world 0 0 [] ())) = Inr (PyVal 6)
   \<and> fst (master_only raising_func [] [] (example_world 0 0 [] ())) = Inl (Exception ''boom'')"
proof -
  have h: "rt_rank (rt (example_world 0 0 [] ())) = 0"
    by (simp add: example_world_def)
  from master_only_propagates_result [OF h, of example_func "[1, 2, 3]" "[]"]
    master_only_propagates_result [OF h, of raising_func "[]" "[]"]
  show ?thesis
    using h by (simp add: example_func_def raising_func_def)
qed

subsection \<open>\<^verbatim>\<open>get_dist_info\<close>\<close>

text \<open>
  Claim C3. Every call of \<open>get_dist_info\<close> returns the four numbers of the runtime in
  the order global rank, local rank, global size, local size, whatever their values are,
  and asks the runtime for each of them, in that order. Nothing is remembered between
  calls: when the runtime's answers have changed after a first call, a second call returns
  the new answers.
\<close>

theorem get_dist_info_tuple_order:
  "fst (get_dist_info w) =
     (rt_rank (rt w), rt_local_rank (rt w), rt_size (rt w), rt_local_size (rt w))
   \<and> snd (get_dist_info w) = w\<lparr>trace := trace w @ [Rank, LocalRank, Size, LocalSize]\<rparr>
   \<and> fst (get_dist_info ((snd (get_dist_info w))\<lparr>rt := r'\<rparr>)) =
     (rt_rank r', rt_local_rank r', rt_size r', rt_local_size r')"
  by (simp add: get_dist_info_unfold)

theorem get_dist_info_tuple_order_witness:
  "fst (get_dist_info (example_world 5 1 [] ())) = (5, 1, 8, 8)
   \<and> trace (snd (get_dist_info (example_world 5 1 [] ()))) = [Rank, LocalRank, Size, LocalSize]
   \<and> fst (get_dist_info ((snd (get_dist_info (example_world 5 1 [] ())))
        \<lparr>rt := rt (example_world 6 2 [] ())\<rparr>)) = (6, 2, 8, 8)"
proof -
  have a: "rt_rank (rt (example_world 5 1 [] ())) = 5"
    "rt_local_rank (rt (example_world 5 1 [] ())) = 1"
    "rt_size (rt (example_world 5 1 [] ())) = 8"
    "rt_local_size (rt (example_world 5 1 [] ())) = 8"
    "trace (example_world 5 1 [] ()) = []"
    by (simp_all add: example_world_def)
  have b: "rt_rank (rt (example_world 6 2 [] ())) = 6"
    "rt_local_rank (rt (example_world 6 2 [] ())) = 2"
    "rt_size (rt (example_world 6 2 [] ())) = 8"
    "rt_local_size (rt (example_world 6 2 [] ())) = 8"
    by (simp_all add: example_world_def)
  from get_dist_info_tuple_order [of "example_world 5 1 [] ()" "rt (example_world 6 2 [] ())"]
  show ?thesis by (elim conjE) (simp add: a b)
qed

subsection \<open>\<^verbatim>\<open>broadcast_weights\<close>, \<^verbatim>\<open>get_distributed_tape\<close>, \<^verbatim>\<open>get_barrier\<close>\<close>

text \<open>
  Claim C2. For every runner, \<open>broadcast_weights\<close> emits its two messages and nothing
  else: no broadcast and no other collective is among the events it adds, the heap is the
  one it started from, and so every variable of the runner's model and of its optimizer
  reads as before (\<open>deref\<close> is any way of reading an object out of the heap).
\<close>

theorem broadcast_weights_only_prints:
  "broadcast_weights r w =
     (Inr (), w\<lparr>trace := trace w @
        [Print (''Rank '' @ str_int (runner_rank r) @ '' broadcasting''),
         Print ''Variable broadcast done.'']\<rparr>)
   \<and> filter is_collective (emitted w (snd (broadcast_weights r w))) = []
   \<and> heap (snd (broadcast_weights r w)) = heap w
   \<and> map (deref (heap (snd (broadcast_weights r w)))) (model_variables r) =
     map (deref (heap w)) (model_variables r)
   \<and> map (deref (heap (snd (broadcast_weights r w)))) (optimizer_variables r) =
     map (deref (heap w)) (optimizer_variables r)"
  by (simp add: broadcast_weights_def print_def log_def emitted_def Let_def)

theorem broadcast_weights_only_prints_witness:
  "broadcast_weights example_runner (example_world 12 4 [] (0::nat)) =
     (Inr (), (example_world 12 4 [] 0)\<lparr>trace :=
        [Print ''Rank 12 broadcasting'', Print ''Variable broadcast done.'']\<rparr>)"
proof -
  have t: "trace (example_world 12 4 [] (0::nat)) = []"
    by (simp add: example_world_def)
  have s: "str_int (runner_rank example_runner) = ''12''"
    by (simp add: example_runner_def str_int_def str_nat.simps digit_char_def)
  from broadcast_weights_only_prints
    [of example_runner "example_world 12 4 [] (0::nat)" "\<lambda>h v. h"]
  show ?thesis by (simp add: t s)
qed

text \<open>
  Claim C8. For every tape, \<open>get_distributed_tape\<close> returns what the runtime's
  distributed gradient-tape wrapper makes of that tape, and that one call is all it does.
\<close>

theorem get_distributed_tape_passthrough:
  "get_distributed_tape tape w =
     (rt_tape (rt w) tape, w\<lparr>trace := trace w @ [DistributedGradientTape tape]\<rparr>)"
  by (simp add: get_distributed_tape_def hr_DistributedGradientTape_def log_def)

theorem get_distributed_tape_passthrough_witness:
  "get_distributed_tape (Ref 7) (example_world 0 0 [] ()) =
     (Ref 8, (example_world 0 0 [] ())\<lparr>trace := [DistributedGradientTape (Ref 7)]\<rparr>)"
proof -
  have a: "rt_tape (rt (example_world 0 0 [] ())) (Ref 7) = Ref 8"
    "trace (example_world 0 0 [] ()) = []"
    by (simp_all add: example_world_def)
  from get_distributed_tape_passthrough [of "Ref 7" "example_world 0 0 [] ()"]
  show ?thesis by (simp add: a)
qed

text \<open>
  Claim C6. Every call of \<open>get_barrier\<close> performs one all-reduce, on the constant 0 of
  element type float32, and returns its result; that all-reduce is the only event of the
  call, so there is no other collective and no barrier primitive.
\<close>

theorem get_barrier_single_allreduce:
  "get_barrier w =
     (rt_allreduce (rt w) (Constant 0 Float32),
      w\<lparr>trace := trace w @ [OobAllreduce (Constant 0 Float32)]\<rparr>)
   \<and> emitted w (snd (get_barrier w)) = [OobAllreduce (Constant 0 Float32)]
   \<and> length (filter is_collective (emitted w (snd (get_barrier w)))) = 1"
  by (simp add: get_barrier_def hr_oob_allreduce_def log_def emitted_def)

theorem get_barrier_single_allreduce_witness:
  "get_barrier (example_world 0 0 [] ()) =
     (Ref 0, (example_world 0 0 [] ())\<lparr>trace := [OobAllreduce (Constant 0 Float32)]\<rparr>)"
proof -
  have a: "rt_allreduce (rt (example_world 0 0 [] ())) (Constant 0 Float32) = Ref 0"
    "trace (example_world 0 0 [] ()) = []"
    by (simp_all add: example_world_def)
  from get_barrier_single_allreduce [of "example_world 0 0 [] ()"]
  show ?thesis by (simp add: a)
qed

subsection \<open>\<^verbatim>\<open>init_dist\<close>\<close>

text \<open>
  Claim C4. When the enumeration returns no device, \<open>init_dist\<close> returns normally and
  the enumeration is the only call it has made: no memory-growth call and no
  visibility call.
\<close>

theorem init_dist_no_gpus:
  assumes "devices w ''GPU'' = []"
  shows "init_dist w = (Inr (), w\<lparr>trace := trace w @ [ListPhysicalDevices ''GPU'']\<rparr>)
    \<and> filter is_device_config (emitted w (snd (init_dist w))) = []"
  using assms by (simp add: init_dist_unfold emitted_def)

theorem init_dist_no_gpus_witness:
  "devices (example_world 0 0 [] ()) ''GPU'' = []
   \<and> init_dist (example_world 0 0 [] ()) =
       (Inr (), (example_world 0 0 [] ())\<lparr>trace := [ListPhysicalDevices ''GPU'']\<rparr>)"
proof -
  have h: "devices (example_world 0 0 [] ()) ''GPU'' = []"
    by (simp add: example_world_def)
  have t: "trace (example_world 0 0 [] ()) = []"
    by (simp add: example_world_def)
  from init_dist_no_gpus [OF h] show ?thesis
    using h by (simp add: t)
qed

text \<open>
  Claim C7, as stated, fails: with one device enumerated and local rank 1 the run enables
  memory growth on the device, asks for the local rank, and ends in \<^verbatim>\<open>IndexError\<close>;
  no visibility call is made.
\<close>

theorem init_dist_rank_past_end_counterexample:
  "devices (example_world 1 1 [gpu0] ()) ''GPU'' = [gpu0]
   \<and> init_dist (example_world 1 1 [gpu0] ()) =
       (Inl IndexError, (example_world 1 1 [gpu0] ())\<lparr>trace :=
          [ListPhysicalDevices ''GPU'', SetMemoryGrowth gpu0 True, LocalRank]\<rparr>)"
  by (simp add: init_dist_unfold example_world_def py_getitem_def)

text \<open>
  Claim C7, amended. When the enumeration returns a non-empty list of \<open>n\<close> devices,
  \<open>init_dist\<close> enables memory growth on every enumerated device, in order, right after
  the enumeration; and when the local rank is a valid index of the list
  (\<open>- n \<le> local_rank < n\<close>) it then makes the single device \<^verbatim>\<open>gpus[local_rank()]\<close>
  the visible one and returns normally. For a local rank from 0 to \<open>n - 1\<close> that device is
  the one at that position of the list.
\<close>

theorem init_dist_configures_devices:
  assumes "devices w ''GPU'' = gpus" and "gpus \<noteq> []"
  shows "take (Suc (length gpus)) (emitted w (snd (init_dist w))) =
           ListPhysicalDevices ''GPU'' # map (\<lambda>g. SetMemoryGrowth g True) gpus
    \<and> (- int (length gpus) \<le> rt_local_rank (rt w) \<and> rt_local_rank (rt w) < int (length gpus) \<longrightarrow>
        init_dist w =
          (Inr (), w\<lparr>trace := trace w @
             ListPhysicalDevices ''GPU'' # map (\<lambda>g. SetMemoryGrowth g True) gpus @
             [LocalRank,
              SetVisibleDevices
                (gpus ! nat (if rt_local_rank (rt w) < 0
                             then rt_local_rank (rt w) + int (length gpus)
                             else rt_local_rank (rt w))) ''GPU'']\<rparr>))"
proof -
  have a: "take (Suc (length gpus)) (emitted w (snd (init_dist w))) =
           ListPhysicalDevices ''GPU'' # map (\<lambda>g. SetMemoryGrowth g True) gpus"
    using assms by (simp add: init_dist_unfold emitted_def Let_def split: sum.splits)
  have b: "init_dist w =
          (Inr (), w\<lparr>trace := trace w @
             ListPhysicalDevices ''GPU'' # map (\<lambda>g. SetMemoryGrowth g True) gpus @
             [LocalRank,
              SetVisibleDevices
                (gpus ! nat (if rt_local_rank (rt w) < 0
                             then rt_local_rank (rt w) + int (length gpus)
                             else rt_local_rank (rt w))) ''GPU'']\<rparr>)"
    if "- int (length gpus) \<le> rt_local_rank (rt w)" "rt_local_rank (rt w) < int (length gpus)"
    using assms py_getitem_in_range [OF that]
    by (simp add: init_dist_unfold Let_def)
  from a b show ?thesis by blast
qed

theorem init_dist_configures_devices_witness:
  "devices (example_world 1 1 [gpu0, gpu1] ()) ''GPU'' = [gpu0, gpu1]
   \<and> [gpu0, gpu1] \<noteq> []
   \<and> init_dist (example_world 1 1 [gpu0, gpu1] ()) =
       (Inr (), (example_world 1 1 [gpu0, gpu1] ())\<lparr>trace :=
          [ListPhysicalDevices ''GPU'', SetMemoryGrowth gpu0 True, SetMemoryGrowth gpu1 True,
           LocalRank, SetVisibleDevices gpu1 ''GPU'']\<rparr>)"
proof -
  have h: "devices (example_world 1 1 [gpu0, gpu1] ()) ''GPU'' = [gpu0, gpu1]"
    by (simp add: example_world_def)
  have n: "[gpu0, gpu1] \<noteq> []" by simp
  have l: "rt_local_rank (rt (example_world 1 1 [gpu0, gpu1] ())) = 1"
    by (simp add: example_world_def)
  have t: "trace (example_world 1 1 [gpu0, gpu1] ()) = []"
    by (simp add: example_world_def)
  from init_dist_configures_devices [OF h n] show ?thesis
    using h by (simp add: l t)
qed

text \<open>
  Claim C9. The local rank is a process's index among the processes of its machine, so the
  runtime reports it from 0 upwards. With a non-empty enumeration of \<open>n\<close> devices and
  such a local rank: when the local rank is not in \<open>0..n-1\<close>, \<open>init_dist\<close> fails with
  \<^verbatim>\<open>IndexError\<close>, raised by the subscription after memory growth has been enabled and
  the runtime asked, so that no visibility call is made; when the local rank is below
  \<open>n\<close>, the indexing error does not occur and the run returns normally.
\<close>

theorem init_dist_index_error:
  assumes "devices w ''GPU'' = gpus" and "gpus \<noteq> []" and "0 \<le> rt_local_rank (rt w)"
  shows "(\<not> (0 \<le> rt_local_rank (rt w) \<and> rt_local_rank (rt w) < int (length gpus)) \<longrightarrow>
            init_dist w =
              (Inl IndexError, w\<lparr>trace := trace w @
                 ListPhysicalDevices ''GPU'' # map (\<lambda>g. SetMemoryGrowth g True) gpus @
                 [LocalRank]\<rparr>))
    \<and> (rt_local_rank (rt w) < int (length gpus) \<longrightarrow>
          fst (init_dist w) \<noteq> Inl IndexError \<and> fst (init_dist w) = Inr ())"
proof -
  have past: "py_getitem gpus (rt_local_rank (rt w)) = Inl IndexError"
    if "int (length gpus) \<le> rt_local_rank (rt w)"
    using that assms(2) py_getitem_error [of gpus "rt_local_rank (rt w)"] by simp
  have a: "init_dist w =
      (Inl IndexError, w\<lparr>trace := trace w @
         ListPhysicalDevices ''GPU'' # map (\<lambda>g. SetMemoryGrowth g True) gpus @ [LocalRank]\<rparr>)"
    if "\<not> (0 \<le> rt_local_rank (rt w) \<and> rt_local_rank (rt w) < int (length gpus))"
  proof -
    from that assms(3) have "int (length gpus) \<le> rt_local_rank (rt w)" by simp
    from past [OF this] assms(1,2) show ?thesis
      by (simp add: init_dist_unfold Let_def)
  qed
  have b: "fst (init_dist w) = Inr ()" if "rt_local_rank (rt w) < int (length gpus)"
  proof -
    from assms(3) have "- int (length gpus) \<le> rt_local_rank (rt w)" by simp
    from py_getitem_in_range [OF this that] assms(1,2) show ?thesis
      by (simp add: init_dist_unfold Let_def)
  qed
  from a b show ?thesis by auto
qed

theorem init_dist_index_error_witness:
  "devices (example_world 2 2 [gpu0, gpu1] ()) ''GPU'' = [gpu0, gpu1]
   \<and> [gpu0, gpu1] \<noteq> []
   \<and> 0 \<le> rt_local_rank (rt (example_world 2 2 [gpu0, gpu1] ()))
   \<and> \<not> rt_local_rank (rt (example_world 2 2 [gpu0, gpu1] ())) < int (length [gpu0, gpu1])
   \<and> init_dist (example_world 2 2 [gpu0, gpu1] ()) =
       (Inl IndexError, (example_world 2 2 [gpu0, gpu1] ())\<lparr>trace :=
          [ListPhysicalDevices ''GPU'', SetMemoryGrowth gpu0 True, SetMemoryGrowth gpu1 True,
           LocalRank]\<rparr>)
   \<and> 0 \<le> rt_local_rank (rt (example_world 1 1 [gpu0, gpu1] ()))
   \<and> rt_local_rank (rt (example_world 1 1 [gpu0, gpu1] ())) < int (length [gpu0, gpu1])
   \<and> fst (init_dist (example_world 1 1 [gpu0, gpu1] ())) = Inr ()"
proof -
  have h: "devices (example_world 2 2 [gpu0, gpu1] ()) ''GPU'' = [gpu0, gpu1]"
    by (simp add: example_world_def)
  have h': "devices (example_world 1 1 [gpu0, gpu1] ()) ''GPU'' = [gpu0, gpu1]"
    by (simp add: example_world_def)
  have n: "[gpu0, gpu1] \<noteq> []" by simp
  have l: "rt_local_rank (rt (example_world 2 2 [gpu0, gpu1] ())) = 2"
    by (simp add: example_world_def)
  have l': "rt_local_rank (rt (example_world 1 1 [gpu0, gpu1] ())) = 1"
    by (simp add: example_world_def)
  have t: "trace (example_world 2 2 [gpu0, gpu1] ()) = []"
    by (simp add: example_world_def)
  have p: "0 \<le> rt_local_rank (rt (example_world 2 2 [gpu0, gpu1] ()))"
    by (simp add: l)
  have p': "0 \<le> rt_local_rank (rt (example_world 1 1 [gpu0, gpu1] ()))"
    by (simp add: l')
  from init_dist_index_error [OF h n p] init_dist_index_error [OF h' n p'] show ?thesis
    using h n by (auto simp add: l l' t)
qed

end
